theory Spec2Isabelle
  imports Main "HOL-Library.Sublist"
begin

section \<open>The service of server.js\<close>

text \<open>
  \<^verbatim>\<open>server.js\<close> builds an Express application with three GET routes, a prom-client
  registry, and listens on a port. The handlers are one call each into Express's response
  object, so the model has three layers: the HTTP server of Node (18, the image of the
  repository's Dockerfile) that \<open>app.listen\<close> puts in front of the application, which
  settles some requests without calling it; the calls of Express (4.x, the version the
  repository's package.json asks for) that the source makes, written out as far as they
  decide status code, Content-Type and body; and the source's own handlers and route table.

  Strings are byte strings: a body is its UTF-8 encoding, a header value its Latin-1 bytes.
  Headers that Express adds on its own account (X-Powered-By, Content-Length, ETag, Date)
  are not part of a response of the model; its \<open>content_type\<close> is the one header the
  source sets.
\<close>

subsection \<open>Requests and responses\<close>

text \<open>
  A request is an HTTP/1.0 or HTTP/1.1 message as it reaches the server: the version, the
  method as the token on the request line, the pathname of the URL (what stands before
  \<open>?\<close>), the query string, the header fields as Node reads them (names in lower case,
  repeated fields merged), and the body. The model does not have the bytes of the message,
  so what Node's parser and timers find wrong with the request line and the header block
  before the application is called, other than the method, is a field of its own: the
  error code (\<open>HPE_HEADER_OVERFLOW\<close> for a header block over the size limit,
  \<open>ERR_HTTP_REQUEST_TIMEOUT\<close> for one that does not arrive in time, \<open>HPE_INVALID_...\<close> for
  broken syntax), or nothing.
\<close>

datatype http_version = HTTP_1_0 | HTTP_1_1

abbreviation GET :: string where "GET \<equiv> ''GET''"

abbreviation HEAD :: string where "HEAD \<equiv> ''HEAD''"

abbreviation OPTIONS :: string where "OPTIONS \<equiv> ''OPTIONS''"

abbreviation CONNECT :: string where "CONNECT \<equiv> ''CONNECT''"

record request =
  req_version :: http_version
  req_method :: string
  req_path :: string
  req_query :: string
  req_headers :: "(string \<times> string) list"
  req_body :: string
  req_head_error :: "string option"

text \<open>
  \<open>req.headers[name]\<close>. The source's libraries only test such a value for truthiness or
  compare it with a string, and \<open>undefined\<close> and the empty string are both falsy, so an
  absent header reads as the empty string.
\<close>

definition header :: "request \<Rightarrow> string \<Rightarrow> string" where
  "header req name = (case map_of (req_headers req) name of None \<Rightarrow> [] | Some v \<Rightarrow> v)"

record response =
  status_code :: nat
  content_type :: "string option"
  body :: string

text \<open>A response object before the handler touches it: Node's \<open>statusCode\<close> starts at 200.\<close>

definition new_response :: response where
  "new_response = \<lparr>status_code = 200, content_type = None, body = []\<rparr>"

datatype js_error = Error string

text \<open>
  What has become of a request: a response was written, by a handler or by Node itself; no
  route took it and Express's final handler answered 404; the handler's promise was
  rejected with nothing written and nobody to catch it; or Node destroyed the socket
  without a response.
\<close>

datatype outcome =
  Responded response | Not_found | Unhandled_rejection js_error | Socket_destroyed

fun status_of :: "outcome \<Rightarrow> nat option" where
  "status_of (Responded r) = Some (status_code r)"
| "status_of Not_found = Some 404"
| "status_of (Unhandled_rejection e) = None"
| "status_of Socket_destroyed = None"

fun body_of :: "outcome \<Rightarrow> string option" where
  "body_of (Responded r) = Some (body r)"
| "body_of Not_found = None"
| "body_of (Unhandled_rejection e) = None"
| "body_of Socket_destroyed = None"

subsection \<open>Characters\<close>

definition char_code :: "char \<Rightarrow> nat" where
  "char_code c = of_char c"

definition lower_ascii :: "char \<Rightarrow> char" where
  "lower_ascii c =
     (case map_of (zip ''ABCDEFGHIJKLMNOPQRSTUVWXYZ'' ''abcdefghijklmnopqrstuvwxyz'') c of
        None \<Rightarrow> c
      | Some l \<Rightarrow> l)"

definition to_lower :: "string \<Rightarrow> string" where
  "to_lower s = map lower_ascii s"

text \<open>The class \<open>\s\<close> of a JavaScript regular expression, on Latin-1 characters.\<close>

definition js_space :: "char \<Rightarrow> bool" where
  "js_space c = (char_code c \<in> {9, 10, 11, 12, 13, 32, 160})"

definition trim_with :: "(char \<Rightarrow> bool) \<Rightarrow> string \<Rightarrow> string" where
  "trim_with p s = rev (dropWhile p (rev (dropWhile p s)))"

fun split_commas :: "string \<Rightarrow> string list" where
  "split_commas [] = [[]]"
| "split_commas (c # cs) =
     (if c = CHR '','' then [] # split_commas cs
      else (case split_commas cs of [] \<Rightarrow> [[c]] | t # ts \<Rightarrow> (c # t) # ts))"

subsection \<open>JSON.stringify\<close>

datatype json = JString string | JObject "(string \<times> json) list"

definition hex_digit :: "nat \<Rightarrow> char" where
  "hex_digit n = (if n < 10 then char_of (48 + n) else char_of (87 + n))"

definition quote_char :: "char \<Rightarrow> string" where
  "quote_char c =
     (if c = CHR 0x22 then [CHR 0x5C, CHR 0x22]
      else if c = CHR 0x5C then [CHR 0x5C, CHR 0x5C]
      else if c = CHR 0x08 then [CHR 0x5C, CHR ''b'']
      else if c = CHR 0x0C then [CHR 0x5C, CHR ''f'']
      else if c = CHR 0x0A then [CHR 0x5C, CHR ''n'']
      else if c = CHR 0x0D then [CHR 0x5C, CHR ''r'']
      else if c = CHR 0x09 then [CHR 0x5C, CHR ''t'']
      else if char_code c < 32
        then [CHR 0x5C, CHR ''u'', CHR ''0'', CHR ''0'',
              hex_digit (char_code c div 16), hex_digit (char_code c mod 16)]
      else [c])"

definition quote :: "string \<Rightarrow> string" where
  "quote s = [CHR 0x22] @ concat (map quote_char s) @ [CHR 0x22]"

fun join_commas :: "string list \<Rightarrow> string" where
  "join_commas [] = []"
| "join_commas [x] = x"
| "join_commas (x # y # ys) = x @ '','' @ join_commas (y # ys)"

fun stringify :: "json \<Rightarrow> string" where
  "stringify (JString s) = quote s"
| "stringify (JObject kvs) =
     ''{'' @ join_commas (map (\<lambda>kv. quote (fst kv) @ '':'' @ stringify (snd kv)) kvs) @ ''}''"

subsection \<open>Express: the response methods the source calls\<close>

text \<open>
  \<open>res.set(field, value)\<close>. For the field Content-Type Express completes a value that
  names no charset: its test is the regular expression \<open>/;\s*charset\s*=/\<close>, and the
  charset it looks up is UTF-8 for the types \<open>text/*\<close>, \<open>application/json\<close> and
  \<open>application/javascript\<close>, and none for the others. Other fields are headers the model
  does not keep.
\<close>

definition charset_here :: "string \<Rightarrow> bool" where
  "charset_here s =
     (case s of
        [] \<Rightarrow> False
      | c # cs \<Rightarrow>
          c = CHR '';'' \<and> prefix ''charset'' (dropWhile js_space cs) \<and>
          prefix ''='' (dropWhile js_space (drop 7 (dropWhile js_space cs))))"

fun charsetRegExp_test :: "string \<Rightarrow> bool" where
  "charsetRegExp_test [] = False"
| "charsetRegExp_test (c # cs) = (charset_here (c # cs) \<or> charsetRegExp_test cs)"

definition charsets_lookup :: "string \<Rightarrow> string option" where
  "charsets_lookup mimeType =
     (if prefix ''text/'' mimeType \<or> prefix ''application/javascript'' mimeType
         \<or> prefix ''application/json'' mimeType
      then Some ''UTF-8'' else None)"

definition content_type_value :: "string \<Rightarrow> string" where
  "content_type_value v =
     (if charsetRegExp_test v then v
      else (case charsets_lookup (takeWhile (\<lambda>c. c \<noteq> CHR '';'') v) of
              None \<Rightarrow> v
            | Some charset \<Rightarrow> v @ ''; charset='' @ to_lower charset))"

definition res_set :: "string \<Rightarrow> string \<Rightarrow> response \<Rightarrow> response" where
  "res_set field v res =
     (if to_lower field = ''content-type''
      then res\<lparr>content_type := Some (content_type_value v)\<rparr>
      else res)"

text \<open>
  \<open>req.fresh\<close>, which \<open>res.send\<close> consults. It is Express's support for conditional
  requests: a GET or HEAD whose response status is 2xx or 304 is fresh when the request
  carries a validator (If-None-Match, If-Modified-Since) that the response satisfies,
  unless Cache-Control asks for \<open>no-cache\<close>. The validator of the response is its ETag,
  here the argument \<open>etag\<close> (empty when the response has none); the responses of this
  program have no Last-Modified, so a request with If-Modified-Since is never fresh.
\<close>

definition parseTokenList :: "string \<Rightarrow> string list" where
  "parseTokenList s = map (trim_with (\<lambda>c. c = CHR '' '')) (split_commas s)"

definition no_cache :: "string \<Rightarrow> bool" where
  "no_cache cacheControl =
     list_ex (\<lambda>directive. trim_with js_space directive = ''no-cache'') (split_commas cacheControl)"

definition etag_matches :: "string \<Rightarrow> string \<Rightarrow> bool" where
  "etag_matches etag m = (m = etag \<or> m = ''W/'' @ etag \<or> ''W/'' @ m = etag)"

definition fresh :: "request \<Rightarrow> string \<Rightarrow> bool" where
  "fresh req etag =
     (let modifiedSince = header req ''if-modified-since'';
          noneMatch = header req ''if-none-match'';
          cacheControl = header req ''cache-control''
      in if modifiedSince = [] \<and> noneMatch = [] then False
         else if cacheControl \<noteq> [] \<and> no_cache cacheControl then False
         else if noneMatch \<noteq> [] \<and> noneMatch \<noteq> ''*'' \<and>
                 (etag = [] \<or> \<not> list_ex (etag_matches etag) (parseTokenList noneMatch))
           then False
         else if modifiedSince \<noteq> [] then False
         else True)"

definition req_fresh :: "request \<Rightarrow> response \<Rightarrow> string \<Rightarrow> bool" where
  "req_fresh req res etag =
     (if req_method req \<noteq> GET \<and> req_method req \<noteq> HEAD then False
      else if (200 \<le> status_code res \<and> status_code res < 300) \<or> status_code res = 304
        then fresh req etag
      else False)"

text \<open>
  \<open>res.send(chunk)\<close> for a string. A response with no Content-Type yet gets
  \<open>text/html\<close> (through \<open>res.set\<close>, which names the charset); one that has a type keeps
  it (Express rewrites its charset parameter to utf-8, which the types set in this program
  already name). The ETag is computed from the chunk by the application's \<open>etag fn\<close>
  setting, by default a hash, which the model takes as the parameter \<open>etag_fn\<close>. A fresh
  request is answered 304; a 204 or 304 response loses its Content-Type and its body, a
  205 response its body; and a HEAD request is answered without a body.
\<close>

definition res_send :: "(string \<Rightarrow> string) \<Rightarrow> request \<Rightarrow> string \<Rightarrow> response \<Rightarrow> response" where
  "res_send etag_fn req chunk res =
     (let res1 = (case content_type res of None \<Rightarrow> res_set ''Content-Type'' ''text/html'' res
                  | Some t \<Rightarrow> res);
          res2 = (if req_fresh req res1 (etag_fn chunk) then res1\<lparr>status_code := 304\<rparr> else res1);
          bare = (status_code res2 = 204 \<or> status_code res2 = 304);
          res3 = (if bare then res2\<lparr>content_type := None\<rparr> else res2);
          chunk3 = (if bare \<or> status_code res2 = 205 then [] else chunk)
      in res3\<lparr>body := (if req_method req = HEAD then [] else chunk3)\<rparr>)"

text \<open>
  \<open>res.json(obj)\<close>: the body is \<open>JSON.stringify(obj)\<close>, the Content-Type
  \<open>application/json\<close> unless one is set, and the rest is \<open>res.send\<close>.
\<close>

definition res_json :: "(string \<Rightarrow> string) \<Rightarrow> request \<Rightarrow> json \<Rightarrow> response \<Rightarrow> response" where
  "res_json etag_fn req obj res =
     res_send etag_fn req (stringify obj)
       (case content_type res of None \<Rightarrow> res_set ''Content-Type'' ''application/json'' res
        | Some t \<Rightarrow> res)"

text \<open>
  \<open>res.end(data)\<close> is Node's: it writes the response as it stands. Node sends no body in
  answer to HEAD, nor with the statuses 1xx, 204 and 304.
\<close>

definition res_end :: "request \<Rightarrow> string \<Rightarrow> response \<Rightarrow> response" where
  "res_end req data res =
     res\<lparr>body := (if req_method req = HEAD \<or> status_code res = 204 \<or> status_code res = 304
                       \<or> (100 \<le> status_code res \<and> status_code res < 200)
                    then [] else data)\<rparr>"

subsection \<open>prom-client: the registry as the source uses it\<close>

text \<open>
  Of \<open>register\<close> the source reads \<open>contentType\<close> and awaits \<open>metrics()\<close>. The package is
  not part of the repository, so both are parameters: the declared content type, and what
  the promise of \<open>metrics()\<close> settles to at the request in hand, the exposition text or a
  rejection.
\<close>

record registry =
  contentType :: string
  metrics :: "js_error + string"

subsection \<open>The handlers of server.js\<close>

type_synonym handler = "(string \<Rightarrow> string) \<Rightarrow> registry \<Rightarrow> request \<Rightarrow> response \<Rightarrow> outcome"

text \<open>The greeting ends in U+1F680, four bytes in UTF-8.\<close>

definition greeting :: string where
  "greeting = ''Hello from Node.js App '' @ [CHR 0xF0, CHR 0x9F, CHR 0x9A, CHR 0x80]"

definition home_handler :: handler where
  "home_handler etag_fn register req res = Responded (res_send etag_fn req greeting res)"

definition health_handler :: handler where
  "health_handler etag_fn register req res =
     Responded (res_json etag_fn req (JObject [(''status'', JString ''UP'')]) res)"

text \<open>
  The metrics handler is an \<open>async\<close> function: it sets the header, then awaits the
  rendering. When the promise is rejected the function's own promise is rejected with it;
  Express 4 calls a handler inside \<open>try\<close>/\<open>catch\<close> and does not look at what it
  returns, so nothing is written and nothing catches the rejection.
\<close>

definition metrics_handler :: handler where
  "metrics_handler etag_fn register req res =
     (let res1 = res_set ''Content-Type'' (contentType register) res
      in case metrics register of
           Inl err \<Rightarrow> Unhandled_rejection err
         | Inr text \<Rightarrow> Responded (res_end req text res1))"

subsection \<open>Express: the router\<close>

text \<open>
  \<open>app.get(path, handler)\<close> appends a route for GET to the application's stack. Express
  compiles the path to a regular expression with its default options (not case sensitive,
  not strict, anchored at both ends): a literal path matches itself with or without one
  trailing slash, letters compared without case. The paths of the source are literal.
\<close>

record route =
  route_path :: string
  route_handler :: handler

definition express :: "route list" where
  "express = []"

definition app_get :: "string \<Rightarrow> handler \<Rightarrow> route list \<Rightarrow> route list" where
  "app_get path h stack = stack @ [\<lparr>route_path = path, route_handler = h\<rparr>]"

definition route_match :: "string \<Rightarrow> string \<Rightarrow> bool" where
  "route_match path pathname =
     (if path \<noteq> [] \<and> last path = CHR ''/''
      then to_lower pathname = to_lower path \<or> to_lower pathname = to_lower (butlast path)
      else to_lower pathname = to_lower path \<or> to_lower pathname = to_lower path @ ''/'')"

text \<open>
  The router walks the stack in order. A route whose path matches and which handles the
  method runs its handler, and none of the source's handlers passes the request on; a GET
  route handles GET and HEAD. A route whose path matches but not its method is skipped;
  for an OPTIONS request its methods are collected, and answered at the end of the stack.
  A request that reaches the end otherwise is answered 404 by Express's final handler.
\<close>

definition appendMethods :: "string list \<Rightarrow> string list \<Rightarrow> string list" where
  "appendMethods options ms = fold (\<lambda>m l. if m \<in> set l then l else l @ [m]) ms options"

fun router_handle ::
  "route list \<Rightarrow> string list \<Rightarrow> (string \<Rightarrow> string) \<Rightarrow> registry \<Rightarrow> request \<Rightarrow> outcome" where
  "router_handle [] options etag_fn register req =
     (if req_method req = OPTIONS \<and> options \<noteq> []
      then Responded (res_send etag_fn req (join_commas options) new_response)
      else Not_found)"
| "router_handle (r # rs) options etag_fn register req =
     (if \<not> route_match (route_path r) (req_path req)
        then router_handle rs options etag_fn register req
      else if req_method req = GET \<or> req_method req = HEAD
        then route_handler r etag_fn register req new_response
      else router_handle rs
             (if req_method req = OPTIONS then appendMethods options [''GET'', ''HEAD''] else options)
             etag_fn register req)"

subsection \<open>The application\<close>

definition app :: "route list" where
  "app = app_get ''/metrics'' metrics_handler
           (app_get ''/health'' health_handler
             (app_get ''/'' home_handler express))"

text \<open>
  One request through the application, once Node has emitted \<open>request\<close>. \<open>etag_fn\<close> is
  the application's ETag generator, \<open>register\<close> the registry as it answers at this request.
\<close>

definition app_handle :: "(string \<Rightarrow> string) \<Rightarrow> registry \<Rightarrow> request \<Rightarrow> outcome" where
  "app_handle etag_fn register req = router_handle app [] etag_fn register req"

subsection \<open>Node: the HTTP server in front of the application\<close>

text \<open>
  \<open>app.listen\<close> is \<open>http.createServer(app).listen\<close>, with no option and no listener but
  the application's for the \<open>request\<close> event. Before it emits that event, Node's server
  settles these requests itself:
  \<^item> a request line whose method the parser does not know is a parse error, as is anything
    else the parser or the timers find wrong with the head; with no \<open>clientError\<close>
    listener the server writes 431 for a header overflow, 408 for a timeout and 400 for
    any other error, and destroys the socket;
  \<^item> a CONNECT request, with no \<open>connect\<close> listener, has its socket destroyed;
  \<^item> an HTTP/1.1 request without a Host header is answered 400 where the server runs
    with \<open>requireHostHeader\<close>, an option of later releases that is on by default; whether
    it does is the parameter \<open>require_host\<close>;
  \<^item> an HTTP/1.1 request with an Expect header that does not ask for \<open>100-continue\<close>
    (the regular expression \<open>/(?:^|\W)100-continue(?:$|\W)/i\<close>) is answered 417, there
    being no \<open>checkExpectation\<close> listener; one that does ask gets the interim
    \<open>100 Continue\<close> and is passed on.
  Every other request is passed to the application. An Upgrade request is one of them,
  there being no \<open>upgrade\<close> listener.
\<close>

definition METHODS :: "string list" where
  "METHODS =
     [''ACL'', ''BIND'', ''CHECKOUT'', ''CONNECT'', ''COPY'', ''DELETE'', ''GET'', ''HEAD'',
      ''LINK'', ''LOCK'', ''M-SEARCH'', ''MERGE'', ''MKACTIVITY'', ''MKCALENDAR'', ''MKCOL'',
      ''MOVE'', ''NOTIFY'', ''OPTIONS'', ''PATCH'', ''POST'', ''PROPFIND'', ''PROPPATCH'',
      ''PURGE'', ''PUT'', ''REBIND'', ''REPORT'', ''SEARCH'', ''SOURCE'', ''SUBSCRIBE'',
      ''TRACE'', ''UNBIND'', ''UNLINK'', ''UNLOCK'', ''UNSUBSCRIBE'']"

definition word_char :: "char \<Rightarrow> bool" where
  "word_char c =
     ((48 \<le> char_code c \<and> char_code c \<le> 57) \<or> (65 \<le> char_code c \<and> char_code c \<le> 90) \<or>
      (97 \<le> char_code c \<and> char_code c \<le> 122) \<or> c = CHR ''_'')"

fun continue_from :: "bool \<Rightarrow> string \<Rightarrow> bool" where
  "continue_from boundary [] = False"
| "continue_from boundary (c # cs) =
     ((boundary \<and> prefix ''100-continue'' (to_lower (c # cs)) \<and>
       (case drop 12 (c # cs) of [] \<Rightarrow> True | d # ds \<Rightarrow> \<not> word_char d))
      \<or> continue_from (\<not> word_char c) cs)"

definition continueExpression_test :: "string \<Rightarrow> bool" where
  "continueExpression_test v = continue_from True v"

definition head_error_status :: "string \<Rightarrow> nat" where
  "head_error_status code =
     (if code = ''HPE_HEADER_OVERFLOW'' then 431
      else if code = ''ERR_HTTP_REQUEST_TIMEOUT'' then 408
      else 400)"

text \<open>What Node writes on its own account has a status line and no body.\<close>

definition node_reply :: "nat \<Rightarrow> outcome" where
  "node_reply status = Responded \<lparr>status_code = status, content_type = None, body = []\<rparr>"

text \<open>
  \<open>node_front\<close> is what Node does with a request before the application: the outcome,
  when it settles the request itself, or nothing, when it emits \<open>request\<close>.
\<close>

definition node_front :: "bool \<Rightarrow> request \<Rightarrow> outcome option" where
  "node_front require_host req =
     (if req_method req \<notin> set METHODS then Some (node_reply 400)
      else case req_head_error req of
        Some code \<Rightarrow> Some (node_reply (head_error_status code))
      | None \<Rightarrow>
          if req_method req = CONNECT then Some Socket_destroyed
          else if req_version req = HTTP_1_1 \<and> require_host \<and>
                  map_of (req_headers req) ''host'' = None
            then Some (node_reply 400)
          else if req_version req = HTTP_1_1
            then (case map_of (req_headers req) ''expect'' of
                    None \<Rightarrow> None
                  | Some v \<Rightarrow> if continueExpression_test v then None else Some (node_reply 417))
          else None)"

text \<open>
  One request through the server that \<open>app.listen(3000, ...)\<close> starts: Node first, then
  the application.
\<close>

definition server_handle ::
  "bool \<Rightarrow> (string \<Rightarrow> string) \<Rightarrow> registry \<Rightarrow> request \<Rightarrow> outcome" where
  "server_handle require_host etag_fn register req =
     (case node_front require_host req of
        Some out \<Rightarrow> out
      | None \<Rightarrow> app_handle etag_fn register req)"

text \<open>
  \<open>app.listen(3000, ...)\<close>: the port is the literal, and the callback logs one line. The
  process environment is an argument of the model to show that the source does not read it.
\<close>

record server =
  port :: nat
  console :: "string list"

definition app_listen :: "(string \<rightharpoonup> string) \<Rightarrow> server" where
  "app_listen env = \<lparr>port = 3000, console = [''Server running on port 3000'']\<rparr>"

text \<open>
  The process after a request. The source installs no handler for unhandled rejections or
  uncaught exceptions, and Node 18 runs in its default mode \<open>--unhandled-rejections=throw\<close>:
  a rejection nobody handles is raised as an uncaught exception, and the process exits with
  code 1.
\<close>

datatype process_state = Listening | Exited nat

fun after_request :: "outcome \<Rightarrow> process_state" where
  "after_request (Responded r) = Listening"
| "after_request Not_found = Listening"
| "after_request (Unhandled_rejection e) = Exited 1"
| "after_request Socket_destroyed = Listening"

subsection \<open>Concrete inputs\<close>

text \<open>
  A stand-in for the ETag generator at concrete inputs (Express's own is a SHA-1 hash of the
  body), a registry that renders, one whose rendering fails and one that declares its type
  without a charset, and requests: one with a Host header only, one that adds
  \<open>If-None-Match: *\<close>, one that adds \<open>Expect: foo\<close>, and an HTTP/1.0 request with a query
  string, a body and headers of its own.
\<close>

definition sample_etag :: "string \<Rightarrow> string" where
  "sample_etag chunk = ''W/'' @ quote chunk"

definition good_register :: registry where
  "good_register =
     \<lparr>contentType = ''text/plain; version=0.0.4; charset=utf-8'',
      metrics = Inr ''process_cpu_seconds_total 0.5''\<rparr>"

definition bare_register :: registry where
  "bare_register =
     \<lparr>contentType = ''text/plain; version=0.0.4'',
      metrics = Inr ''process_cpu_seconds_total 0.5''\<rparr>"

definition failing_register :: registry where
  "failing_register =
     \<lparr>contentType = ''text/plain; version=0.0.4; charset=utf-8'',
      metrics = Inl (Error ''collect failed'')\<rparr>"

definition plain_request :: "string \<Rightarrow> string \<Rightarrow> request" where
  "plain_request m p =
     \<lparr>req_version = HTTP_1_1, req_method = m, req_path = p, req_query = [],
      req_headers = [(''host'', ''localhost:3000'')], req_body = [], req_head_error = None\<rparr>"

definition conditional_request :: "string \<Rightarrow> string \<Rightarrow> request" where
  "conditional_request m p =
     \<lparr>req_version = HTTP_1_1, req_method = m, req_path = p, req_query = [],
      req_headers = [(''host'', ''localhost:3000''), (''if-none-match'', ''*'')],
      req_body = [], req_head_error = None\<rparr>"

definition expecting_request :: "string \<Rightarrow> string \<Rightarrow> request" where
  "expecting_request m p =
     \<lparr>req_version = HTTP_1_1, req_method = m, req_path = p, req_query = [],
      req_headers = [(''host'', ''localhost:3000''), (''expect'', ''foo'')],
      req_body = [], req_head_error = None\<rparr>"

definition probe_request :: request where
  "probe_request =
     \<lparr>req_version = HTTP_1_0, req_method = GET, req_path = ''/health'',
      req_query = ''verbose=1'',
      req_headers = [(''user-agent'', ''kube-probe/1.27''), (''accept'', ''*/*'')],
      req_body = ''ping'', req_head_error = None\<rparr>"

text \<open>
  A request is answered when a status code went out, one of those this application can
  produce, and the process is still listening afterwards.
\<close>

definition answered :: "outcome \<Rightarrow> bool" where
  "answered out =
     ((status_of out = Some 200 \<or> status_of out = Some 304 \<or> status_of out = Some 404) \<and>
      after_request out = Listening)"

fun content_type_of :: "outcome \<Rightarrow> string option" where
  "content_type_of (Responded r) = content_type r"
| "content_type_of Not_found = None"
| "content_type_of (Unhandled_rejection e) = None"
| "content_type_of Socket_destroyed = None"

section \<open>The specification's health contract\<close>

text \<open>
  The specification describes a Health Reporter with three statuses, aggregated from
  sub-checks by taking the most severe, and a route that answers 503 for DOWN. The source
  has neither; the definitions of this section follow the specification's words, to be
  compared with what the \<open>/health\<close> handler of the source does.
\<close>

datatype health_status = UP | DEGRADED | DOWN









section \<open>The specification's Metric Registry\<close>

text \<open>
  The repository does not implement a registry: it constructs the one of the prom-client
  package and hands it to the package's default collectors. The registry of this section is
  the one the specification describes (its sections 3 and 4.1). A registry is the list of
  its metrics in registration order; a value is kept as its decimal text.
\<close>

datatype metric_kind = Counter | Gauge | Histogram

record metric =
  metric_name :: string
  metric_kind :: metric_kind
  metric_labels :: "(string \<times> string) list"
  metric_value :: "string option"

datatype registry_error = DuplicateNameError

text \<open>
  Modelled from the spec: \<open>register\<close> of the Metric Registry, whose code is prom-client's
  and not the repository's. It fails with \<open>DuplicateNameError\<close> if the name already
  exists, and otherwise adds the metric at the end of the ordered set.
\<close>

definition spec_register :: "metric \<Rightarrow> metric list \<Rightarrow> registry_error + metric list" where
  "spec_register m reg =
     (if metric_name m \<in> set (map metric_name reg) then Inl DuplicateNameError
      else Inr (reg @ [m]))"

text \<open>
  Modelled from the spec: \<open>render\<close> of the Metric Registry, whose code is prom-client's
  and not the repository's. It gives one line per metric, in registration order, in the
  form \<open>metric_name{label="value",...} numeric_value\<close>; an absent value renders as \<open>0\<close>.
\<close>

definition render_labels :: "(string \<times> string) list \<Rightarrow> string" where
  "render_labels ls =
     (if ls = [] then []
      else ''{'' @ join_commas (map (\<lambda>kv. fst kv @ ''='' @ quote (snd kv)) ls) @ ''}'')"

definition render_line :: "metric \<Rightarrow> string" where
  "render_line m =
     metric_name m @ render_labels (metric_labels m) @ '' '' @
     (case metric_value m of None \<Rightarrow> ''0'' | Some v \<Rightarrow> v)"

text \<open>The entries of a snapshot, each with the name it is for, and the text they make.\<close>

definition spec_render_entries :: "metric list \<Rightarrow> (string \<times> string) list" where
  "spec_render_entries reg = map (\<lambda>m. (metric_name m, render_line m)) reg"

definition spec_render :: "metric list \<Rightarrow> string" where
  "spec_render reg = concat (map (\<lambda>e. snd e @ [CHR 0x0A]) (spec_render_entries reg))"

definition entries_for :: "string \<Rightarrow> metric list \<Rightarrow> nat" where
  "entries_for name reg = length (filter (\<lambda>e. fst e = name) (spec_render_entries reg))"

text \<open>
  A run of registrations from a given registry: a registration that fails leaves the
  registry as it was.
\<close>

fun register_each :: "metric list \<Rightarrow> metric list \<Rightarrow> metric list" where
  "register_each reg [] = reg"
| "register_each reg (m # ms) =
     (case spec_register m reg of
        Inl err \<Rightarrow> register_each reg ms
      | Inr reg' \<Rightarrow> register_each reg' ms)"

definition sample_metric :: "string \<Rightarrow> metric" where
  "sample_metric name =
     \<lparr>metric_name = name, metric_kind = Gauge, metric_labels = [], metric_value = None\<rparr>"

section \<open>Routing\<close>

lemma app_stack:
  "app = [\<lparr>route_path = ''/'', route_handler = home_handler\<rparr>,
          \<lparr>route_path = ''/health'', route_handler = health_handler\<rparr>,
          \<lparr>route_path = ''/metrics'', route_handler = metrics_handler\<rparr>]"
  by (simp add: app_def app_get_def express_def)

lemma lower_ascii_slash: "lower_ascii c = CHR ''/'' \<longleftrightarrow> c = CHR ''/''"
proof
  assume "lower_ascii c = CHR ''/''"
  then show "c = CHR ''/''"
    by (auto simp: lower_ascii_def split: option.splits if_splits)
next
  assume "c = CHR ''/''"
  then show "lower_ascii c = CHR ''/''" by (simp add: lower_ascii_def)
qed

lemma to_lower_Nil: "to_lower p = [] \<longleftrightarrow> p = []"
  by (simp add: to_lower_def)

lemma to_lower_slash: "to_lower p = ''/'' \<longleftrightarrow> p = ''/''"
  by (cases p) (auto simp: to_lower_def lower_ascii_slash)

lemma to_lower_consts:
  "to_lower [] = []" "to_lower ''/'' = ''/''" "to_lower ''/health'' = ''/health''"
  "to_lower ''/metrics'' = ''/metrics''"
  by (simp_all add: to_lower_def lower_ascii_def)

lemma match_home: "route_match ''/'' p \<longleftrightarrow> p = [] \<or> p = ''/''"
  by (auto simp: route_match_def to_lower_Nil to_lower_slash to_lower_consts)

lemma match_health:
  "route_match ''/health'' p \<longleftrightarrow> to_lower p = ''/health'' \<or> to_lower p = ''/health/''"
  by (simp add: route_match_def to_lower_consts)

lemma match_metrics:
  "route_match ''/metrics'' p \<longleftrightarrow> to_lower p = ''/metrics'' \<or> to_lower p = ''/metrics/''"
  by (simp add: route_match_def to_lower_consts)

lemma home_excludes:
  "route_match ''/'' p \<Longrightarrow> \<not> route_match ''/health'' p \<and> \<not> route_match ''/metrics'' p"
  by (auto simp: match_home match_health match_metrics to_lower_def lower_ascii_def)

lemma health_excludes:
  "route_match ''/health'' p \<Longrightarrow> \<not> route_match ''/'' p \<and> \<not> route_match ''/metrics'' p"
  by (auto simp: match_home match_health match_metrics to_lower_def lower_ascii_def)

lemma metrics_excludes:
  "route_match ''/metrics'' p \<Longrightarrow> \<not> route_match ''/'' p \<and> \<not> route_match ''/health'' p"
  by (auto simp: match_home match_health match_metrics to_lower_def lower_ascii_def)

lemma handle_home:
  "req_method req = GET \<or> req_method req = HEAD \<Longrightarrow> route_match ''/'' (req_path req) \<Longrightarrow>
   app_handle e r req = home_handler e r req new_response"
  by (simp add: app_handle_def app_stack)

lemma handle_health:
  "req_method req = GET \<or> req_method req = HEAD \<Longrightarrow> route_match ''/health'' (req_path req) \<Longrightarrow>
   app_handle e r req = health_handler e r req new_response"
  using health_excludes [of "req_path req"] by (simp add: app_handle_def app_stack)

lemma handle_metrics:
  "req_method req = GET \<or> req_method req = HEAD \<Longrightarrow> route_match ''/metrics'' (req_path req) \<Longrightarrow>
   app_handle e r req = metrics_handler e r req new_response"
  using metrics_excludes [of "req_path req"] by (simp add: app_handle_def app_stack)

lemma handle_unmatched:
  "\<not> route_match ''/'' (req_path req) \<Longrightarrow> \<not> route_match ''/health'' (req_path req) \<Longrightarrow>
   \<not> route_match ''/metrics'' (req_path req) \<Longrightarrow> app_handle e r req = Not_found"
  by (simp add: app_handle_def app_stack)

section \<open>What the response methods write\<close>

lemma html_type: "content_type_value ''text/html'' = ''text/html; charset=utf-8''"
  by (simp add: content_type_value_def charset_here_def charsets_lookup_def to_lower_def
      lower_ascii_def)

lemma json_type: "content_type_value ''application/json'' = ''application/json; charset=utf-8''"
  by (simp add: content_type_value_def charset_here_def charsets_lookup_def to_lower_def
      lower_ascii_def)

lemma field_content_type: "to_lower ''Content-Type'' = ''content-type''"
  by (simp add: to_lower_def lower_ascii_def)

lemma res_send_new:
  "req_method req = GET \<Longrightarrow>
   res_send e req chunk new_response =
     (if fresh req (e chunk) then \<lparr>status_code = 304, content_type = None, body = []\<rparr>
      else \<lparr>status_code = 200, content_type = Some ''text/html; charset=utf-8'', body = chunk\<rparr>)"
  by (simp add: res_send_def new_response_def res_set_def field_content_type html_type
      req_fresh_def Let_def)

lemma res_json_new:
  "req_method req = GET \<Longrightarrow>
   res_json e req obj new_response =
     (if fresh req (e (stringify obj))
      then \<lparr>status_code = 304, content_type = None, body = []\<rparr>
      else \<lparr>status_code = 200, content_type = Some ''application/json; charset=utf-8'',
            body = stringify obj\<rparr>)"
  by (simp add: res_json_def res_send_def new_response_def res_set_def field_content_type
      json_type req_fresh_def Let_def)

lemma res_send_status:
  "status_code (res_send e req chunk new_response) = 200 \<or>
   status_code (res_send e req chunk new_response) = 304"
  by (simp add: res_send_def new_response_def res_set_def field_content_type Let_def)

lemma res_json_status:
  "status_code (res_json e req obj new_response) = 200 \<or>
   status_code (res_json e req obj new_response) = 304"
  by (simp add: res_json_def res_send_def new_response_def res_set_def field_content_type Let_def)

lemma metrics_handler_cases:
  "metrics_handler e register req new_response =
     (case metrics register of
        Inl err \<Rightarrow> Unhandled_rejection err
      | Inr text \<Rightarrow>
          Responded \<lparr>status_code = 200,
                     content_type = Some (content_type_value (contentType register)),
                     body = (if req_method req = HEAD then [] else text)\<rparr>)"
  by (simp add: metrics_handler_def res_set_def field_content_type res_end_def new_response_def
      split: sum.splits)

lemma fresh_unconditional:
  "header req ''if-none-match'' = [] \<Longrightarrow> header req ''if-modified-since'' = [] \<Longrightarrow>
   \<not> fresh req etag"
  by (simp add: fresh_def)

lemma fresh_cong:
  "header r1 ''if-none-match'' = header r2 ''if-none-match'' \<Longrightarrow>
   header r1 ''if-modified-since'' = header r2 ''if-modified-since'' \<Longrightarrow>
   header r1 ''cache-control'' = header r2 ''cache-control'' \<Longrightarrow>
   fresh r1 etag = fresh r2 etag"
  by (simp add: fresh_def)

lemma up_body: \<open>stringify (JObject [(''status'', JString ''UP'')]) = ''{"status":"UP"}''\<close>
  by (simp add: quote_def quote_char_def char_code_def)


section \<open>Concrete requests\<close>

lemma plain_validators:
  "header (plain_request m p) ''if-none-match'' = []"
  "header (plain_request m p) ''if-modified-since'' = []"
  "header (plain_request m p) ''cache-control'' = []"
  by (simp_all add: header_def plain_request_def)

lemma plain_fields:
  "req_method (plain_request m p) = m" "req_path (plain_request m p) = p"
  by (simp_all add: plain_request_def)

lemma conditional_fields:
  "req_method (conditional_request m p) = m" "req_path (conditional_request m p) = p"
  by (simp_all add: conditional_request_def)

lemma expecting_fields:
  "req_method (expecting_request m p) = m" "req_path (expecting_request m p) = p"
  by (simp_all add: expecting_request_def)

lemma conditional_fresh: "fresh (conditional_request m p) etag"
  by (simp add: fresh_def header_def conditional_request_def)

lemma match_self:
  "route_match ''/'' ''/''" "route_match ''/health'' ''/health''"
  "route_match ''/metrics'' ''/metrics''"
  by (simp_all add: match_home match_health match_metrics to_lower_consts)

lemma no_match_nonexistent:
  "\<not> route_match ''/'' ''/nonexistent''" "\<not> route_match ''/health'' ''/nonexistent''"
  "\<not> route_match ''/metrics'' ''/nonexistent''"
  by (simp_all add: match_home match_health match_metrics to_lower_def lower_ascii_def)

lemma good_register_charset: "charsetRegExp_test (contentType good_register)"
  by (simp add: good_register_def charset_here_def js_space_def char_code_def)

section \<open>What Node settles\<close>

lemma GET_known: "GET \<in> set METHODS"
  by (simp add: METHODS_def)

text \<open>Which GET requests Node passes to the application.\<close>

lemma GET_passed_iff:
  assumes "req_method req = GET"
  shows "node_front rh req = None \<longleftrightarrow>
         req_head_error req = None \<and>
         (req_version req = HTTP_1_1 \<longrightarrow>
            (rh \<longrightarrow> map_of (req_headers req) ''host'' \<noteq> None) \<and>
            (case map_of (req_headers req) ''expect'' of
               None \<Rightarrow> True
             | Some v \<Rightarrow> continueExpression_test v))"
  using assms
  by (auto simp: node_front_def METHODS_def node_reply_def split: option.splits)

lemma plain_passed: "m \<in> set METHODS \<Longrightarrow> m \<noteq> CONNECT \<Longrightarrow> node_front rh (plain_request m p) = None"
  by (simp add: node_front_def plain_request_def)

lemma conditional_passed: "node_front rh (conditional_request GET p) = None"
  by (simp add: node_front_def conditional_request_def METHODS_def)

lemma probe_passed: "node_front rh probe_request = None"
  by (simp add: node_front_def probe_request_def METHODS_def)

lemma expecting_417: "node_front rh (expecting_request GET p) = Some (node_reply 417)"
  by (simp add: node_front_def expecting_request_def METHODS_def continueExpression_test_def
      to_lower_def lower_ascii_def)

lemma unknown_method_400: "node_front rh (plain_request ''FOO'' p) = Some (node_reply 400)"
  by (simp add: node_front_def plain_request_def METHODS_def)

lemma passed_on: "node_front rh req = None \<Longrightarrow> server_handle rh e register req = app_handle e register req"
  by (simp add: server_handle_def)

lemma settled: "node_front rh req = Some out \<Longrightarrow> server_handle rh e register req = out"
  by (simp add: server_handle_def)

lemma head_error_status_range: "400 \<le> head_error_status code \<and> head_error_status code < 500"
  by (simp add: head_error_status_def)

text \<open>What Node settles itself is a 4xx without a body, or a destroyed socket.\<close>

lemma node_front_Some:
  assumes "node_front rh req = Some out"
  shows "out = Socket_destroyed \<or>
         (\<exists>s. out = node_reply s \<and> 400 \<le> s \<and> s < 500 \<and> s \<noteq> 404)"
proof -
  have "head_error_status code \<noteq> 404" for code
    by (simp add: head_error_status_def)
  with assms head_error_status_range show ?thesis
    by (auto simp: node_front_def split: if_splits option.splits)
qed


section \<open>Every request is settled\<close>

lemma answered_simps:
  "answered Not_found"
  "answered (Responded res) = (status_code res = 200 \<or> status_code res = 304 \<or> status_code res = 404)"
  "\<not> answered (Unhandled_rejection err)"
  by (simp_all add: answered_def)

lemma home_answered:
  assumes "route_match ''/'' (req_path req)"
  shows "answered (app_handle e register req)"
  using assms home_excludes [OF assms] res_send_status [of e req]
  by (auto simp: app_handle_def app_stack home_handler_def answered_simps)

lemma health_answered:
  assumes "route_match ''/health'' (req_path req)"
  shows "answered (app_handle e register req)"
  using assms health_excludes [OF assms] res_json_status [of e req] res_send_status [of e req]
  by (auto simp: app_handle_def app_stack health_handler_def answered_simps)

lemma metrics_outcome:
  assumes "route_match ''/metrics'' (req_path req)"
  shows "app_handle e register req =
           (if req_method req = GET \<or> req_method req = HEAD
            then metrics_handler e register req new_response
            else app_handle e register req) \<and>
         (req_method req \<noteq> GET \<and> req_method req \<noteq> HEAD \<longrightarrow> answered (app_handle e register req))"
  using assms metrics_excludes [OF assms] res_send_status [of e req]
  by (auto simp: app_handle_def app_stack answered_simps)

text \<open>
  The application answers every request that is not a GET or HEAD to \<open>/metrics\<close> with a
  failing registry.
\<close>

lemma app_answered:
  assumes "\<not> ((req_method req = GET \<or> req_method req = HEAD) \<and>
              route_match ''/metrics'' (req_path req) \<and> isl (metrics register))"
  shows "answered (app_handle e register req)"
proof (cases "route_match ''/metrics'' (req_path req)")
  case True
  note m = metrics_outcome [OF True, of e register]
  show ?thesis
  proof (cases "req_method req = GET \<or> req_method req = HEAD")
    case True
    with m have "app_handle e register req = metrics_handler e register req new_response"
      by simp
    with True assms \<open>route_match ''/metrics'' (req_path req)\<close> show ?thesis
      by (cases "metrics register") (auto simp: metrics_handler_cases answered_simps)
  next
    case False
    with m show ?thesis by simp
  qed
next
  case False
  show ?thesis
  proof (cases "route_match ''/'' (req_path req)")
    case True
    then show ?thesis by (rule home_answered)
  next
    case nh: False
    show ?thesis
    proof (cases "route_match ''/health'' (req_path req)")
      case True
      then show ?thesis by (rule health_answered)
    next
      case False
      with nh \<open>\<not> route_match ''/metrics'' (req_path req)\<close> show ?thesis
        by (simp add: handle_unmatched answered_simps)
    qed
  qed
qed

lemma app_rejects:
  assumes "req_method req = GET \<or> req_method req = HEAD"
    and "route_match ''/metrics'' (req_path req)" and "isl (metrics register)"
  shows "app_handle e register req = Unhandled_rejection (projl (metrics register))"
  using assms by (cases "metrics register") (simp_all add: handle_metrics metrics_handler_cases)

section \<open>Registrations\<close>

lemma register_each_names:
  "set (map metric_name (register_each reg ms)) = set (map metric_name reg) \<union> metric_name ` set ms"
proof (induction ms arbitrary: reg)
  case Nil
  then show ?case by simp
next
  case (Cons m ms)
  show ?case
  proof (cases "metric_name m \<in> set (map metric_name reg)")
    case True
    then have "register_each reg (m # ms) = register_each reg ms"
      by (simp add: spec_register_def)
    with True Cons.IH [of reg] show ?thesis by auto
  next
    case False
    then have "register_each reg (m # ms) = register_each (reg @ [m]) ms"
      by (simp add: spec_register_def)
    with Cons.IH [of "reg @ [m]"] show ?thesis by auto
  qed
qed

lemma register_each_distinct:
  "distinct (map metric_name reg) \<Longrightarrow> distinct (map metric_name (register_each reg ms))"
proof (induction ms arbitrary: reg)
  case Nil
  then show ?case by simp
next
  case (Cons m ms)
  show ?case
  proof (cases "metric_name m \<in> set (map metric_name reg)")
    case True
    with Cons show ?thesis by (simp add: spec_register_def)
  next
    case False
    with Cons.prems have "distinct (map metric_name (reg @ [m]))" by simp
    from Cons.IH [OF this] False show ?thesis by (simp add: spec_register_def)
  qed
qed

lemma entries_for_filter:
  "entries_for name reg = length (filter (\<lambda>m. metric_name m = name) reg)"
  by (simp add: entries_for_def spec_render_entries_def filter_map comp_def)

lemma one_entry:
  "distinct (map metric_name reg) \<Longrightarrow> name \<in> set (map metric_name reg) \<Longrightarrow>
   entries_for name reg = 1"
proof (induction reg)
  case Nil
  then show ?case by simp
next
  case (Cons m reg)
  show ?case
  proof (cases "metric_name m = name")
    case True
    with Cons.prems have "metric_name m \<notin> metric_name ` set reg" by simp
    with True have "\<forall>x \<in> set reg. metric_name x \<noteq> name" by blast
    then have "filter (\<lambda>x. metric_name x = name) reg = []"
      by (simp add: filter_empty_conv)
    with True show ?thesis by (simp add: entries_for_filter)
  next
    case False
    with Cons show ?thesis by (simp add: entries_for_filter)
  qed
qed

section \<open>The three routes\<close>


lemma health_outcome:
  assumes "req_method req = GET" and "route_match ''/health'' (req_path req)"
  shows \<open>app_handle e register req =
           Responded (if fresh req (e ''{"status":"UP"}'')
                      then \<lparr>status_code = 304, content_type = None, body = []\<rparr>
                      else \<lparr>status_code = 200,
                            content_type = Some ''application/json; charset=utf-8'',
                            body = ''{"status":"UP"}''\<rparr>)\<close>
  using assms
  by (simp add: handle_health health_handler_def res_json_new up_body del: stringify.simps)

lemma home_outcome:
  assumes "req_method req = GET" and "route_match ''/'' (req_path req)"
  shows "app_handle e register req =
           Responded (if fresh req (e greeting)
                      then \<lparr>status_code = 304, content_type = None, body = []\<rparr>
                      else \<lparr>status_code = 200, content_type = Some ''text/html; charset=utf-8'',
                            body = greeting\<rparr>)"
  using assms by (simp add: handle_home home_handler_def res_send_new)

lemma plain_health:
  \<open>server_handle rh e register (plain_request GET ''/health'') =
     Responded \<lparr>status_code = 200, content_type = Some ''application/json; charset=utf-8'',
                body = ''{"status":"UP"}''\<rparr>\<close>
  by (simp add: passed_on plain_passed GET_known health_outcome plain_fields match_self
      fresh_unconditional plain_validators)

lemma conditional_health:
  "server_handle rh e register (conditional_request GET ''/health'') =
     Responded \<lparr>status_code = 304, content_type = None, body = []\<rparr>"
  by (simp add: passed_on conditional_passed health_outcome conditional_fields match_self
      conditional_fresh)

lemma expecting_any:
  "server_handle rh e register (expecting_request GET p) = node_reply 417"
  by (simp add: settled expecting_417)

lemma metrics_outcome_ok:
  assumes "req_method req = GET" and "route_match ''/metrics'' (req_path req)"
    and "metrics register = Inr text"
  shows "app_handle e register req =
           Responded \<lparr>status_code = 200,
                      content_type = Some (content_type_value (contentType register)),
                      body = text\<rparr>"
  using assms by (simp add: handle_metrics metrics_handler_cases)

lemma text_type_completed:
  assumes "\<not> charsetRegExp_test ct" and "prefix ''text/'' ct"
  shows "content_type_value ct = ct @ ''; charset=utf-8''"
proof -
  from assms(2) obtain rest where ct: "ct = ''text/'' @ rest"
    by (auto simp: prefix_def)
  have "prefix ''text/'' (takeWhile (\<lambda>c. c \<noteq> CHR '';'') ct)"
    unfolding ct by simp
  then have "charsets_lookup (takeWhile (\<lambda>c. c \<noteq> CHR '';'') ct) = Some ''UTF-8''"
    by (simp add: charsets_lookup_def)
  moreover have "to_lower ''UTF-8'' = ''utf-8''"
    by (simp add: to_lower_def lower_ascii_def)
  ultimately show ?thesis using assms(1) by (simp add: content_type_value_def)
qed

lemma bare_type:
  "content_type_value ''text/plain; version=0.0.4'' = ''text/plain; version=0.0.4; charset=utf-8''"
  by (simp add: content_type_value_def charset_here_def js_space_def char_code_def
      charsets_lookup_def to_lower_def lower_ascii_def)

section \<open>The claims\<close>

subsection \<open>C1: GET /health\<close>

text \<open>
  C1 says that every GET /health request yields 200 with the body \<open>{"status":"UP"}\<close>.
  The handler passes the constant object to \<open>res.json\<close>, and \<open>res.json\<close> ends in
  \<open>res.send\<close>, which answers a fresh conditional request with 304 and no body: a request
  with \<open>If-None-Match: *\<close> is one. And a request with \<open>Expect: foo\<close> never reaches the
  handler: Node answers it 417.
\<close>

theorem health_conditional_304:
  "status_of (server_handle True sample_etag good_register (conditional_request GET ''/health''))
     = Some 304 \<and>
   body_of (server_handle True sample_etag good_register (conditional_request GET ''/health''))
     = Some [] \<and>
   status_of (server_handle True sample_etag good_register (expecting_request GET ''/health''))
     = Some 417"
  by (simp add: conditional_health expecting_any node_reply_def)

text \<open>
  C1, as the code has it: a GET request to \<open>/health\<close> that Node passes to the application
  is answered 200 with the body \<open>{"status":"UP"}\<close> and the type
  \<open>application/json; charset=utf-8\<close>, unless it is a conditional request that Express
  finds fresh, which is answered 304 with no body. A request with neither If-None-Match nor
  If-Modified-Since is never fresh, so it gets the 200.
\<close>

theorem health_route:
  assumes "req_method req = GET" and "route_match ''/health'' (req_path req)"
    and "node_front require_host req = None"
  shows \<open>server_handle require_host etag_fn register req =
           Responded (if fresh req (etag_fn ''{"status":"UP"}'')
                      then \<lparr>status_code = 304, content_type = None, body = []\<rparr>
                      else \<lparr>status_code = 200,
                            content_type = Some ''application/json; charset=utf-8'',
                            body = ''{"status":"UP"}''\<rparr>)
         \<and> (header req ''if-none-match'' = [] \<and> header req ''if-modified-since'' = [] \<longrightarrow>
              server_handle require_host etag_fn register req =
                Responded \<lparr>status_code = 200,
                           content_type = Some ''application/json; charset=utf-8'',
                           body = ''{"status":"UP"}''\<rparr>)\<close>
  using assms by (simp add: passed_on health_outcome fresh_unconditional)

theorem health_route_witness:
  \<open>req_method (plain_request GET ''/health'') = GET \<and>
   route_match ''/health'' (req_path (plain_request GET ''/health'')) \<and>
   node_front True (plain_request GET ''/health'') = None \<and>
   server_handle True sample_etag good_register (plain_request GET ''/health'') =
     Responded \<lparr>status_code = 200, content_type = Some ''application/json; charset=utf-8'',
                body = ''{"status":"UP"}''\<rparr>\<close>
  using health_route [of "plain_request GET ''/health''" True sample_etag good_register]
  by (simp add: plain_fields match_self plain_passed GET_known fresh_unconditional plain_validators)

subsection \<open>C2: the listening port\<close>

text \<open>
  C2 says that the server binds the port an environment variable names, and the default
  only when the variable is absent. With \<open>PORT=8080\<close> in the environment the source binds
  3000, the port it binds with an empty environment.
\<close>

theorem listen_ignores_PORT:
  "port (app_listen [''PORT'' \<mapsto> ''8080'']) = 3000 \<and>
   port (app_listen [''PORT'' \<mapsto> ''8080'']) \<noteq> 8080 \<and>
   port (app_listen [''PORT'' \<mapsto> ''8080'']) = port (app_listen Map.empty)"
  by (simp add: app_listen_def)

text \<open>
  C2, as the code has it: the server listens on port 3000 whatever the environment holds,
  and logs that it does.
\<close>

theorem listen_port_fixed:
  "port (app_listen env) = 3000 \<and> console (app_listen env) = [''Server running on port 3000'']"
  by (simp add: app_listen_def)

subsection \<open>C3: GET /\<close>

text \<open>
  C3 says that GET / answers 200 with a static greeting whose Content-Type is text/plain
  or application/json. The handler gives a string to \<open>res.send\<close>, which types a string
  as HTML when no type is set; and, as for C1, a fresh conditional request is answered 304
  and a request with \<open>Expect: foo\<close> 417.
\<close>

theorem home_is_html:
  "content_type_of (server_handle True sample_etag good_register (plain_request GET ''/'')) =
     Some ''text/html; charset=utf-8'' \<and>
   \<not> prefix ''text/plain'' ''text/html; charset=utf-8'' \<and>
   \<not> prefix ''application/json'' ''text/html; charset=utf-8'' \<and>
   status_of (server_handle True sample_etag good_register (conditional_request GET ''/''))
     = Some 304 \<and>
   status_of (server_handle True sample_etag good_register (expecting_request GET ''/''))
     = Some 417"
  by (simp add: passed_on plain_passed conditional_passed GET_known home_outcome plain_fields
      conditional_fields match_self conditional_fresh fresh_unconditional plain_validators
      expecting_any node_reply_def)

text \<open>
  C3, as the code has it: a GET request to \<open>/\<close> that Node passes to the application is
  answered 200 with the greeting, which is not empty, and the type
  \<open>text/html; charset=utf-8\<close>, the same on every such response; unless the request is
  conditional and fresh, which is answered 304 with no body.
\<close>

theorem home_route:
  assumes "req_method req = GET" and "route_match ''/'' (req_path req)"
    and "node_front require_host req = None"
  shows "server_handle require_host etag_fn register req =
           Responded (if fresh req (etag_fn greeting)
                      then \<lparr>status_code = 304, content_type = None, body = []\<rparr>
                      else \<lparr>status_code = 200, content_type = Some ''text/html; charset=utf-8'',
                            body = greeting\<rparr>)
         \<and> greeting \<noteq> []"
  using assms by (simp add: passed_on home_outcome) (simp add: greeting_def)

theorem home_route_witness:
  "req_method (plain_request GET ''/'') = GET \<and>
   route_match ''/'' (req_path (plain_request GET ''/'')) \<and>
   node_front True (plain_request GET ''/'') = None \<and>
   server_handle True sample_etag good_register (plain_request GET ''/'') =
     Responded \<lparr>status_code = 200, content_type = Some ''text/html; charset=utf-8'',
                body = greeting\<rparr>"
  using home_route [of "plain_request GET ''/''" True sample_etag good_register]
  by (simp add: plain_fields match_self plain_passed GET_known fresh_unconditional plain_validators)

subsection \<open>C4: DOWN and 503\<close>



subsection \<open>C5: most severe wins\<close>



subsection \<open>C6: GET /metrics\<close>

text \<open>
  C6 says that every GET /metrics request is answered 200 with Content-Type the registry's
  declared type, \<open>text/plain; version=0.0.4\<close>. For a registry that declares just that,
  \<open>res.set\<close> sends \<open>text/plain; version=0.0.4; charset=utf-8\<close>, which is not the declared
  type; and a request with \<open>Expect: foo\<close> is answered 417 by Node.
\<close>

theorem metrics_type_completed:
  "contentType bare_register = ''text/plain; version=0.0.4'' \<and>
   content_type_of (server_handle True sample_etag bare_register (plain_request GET ''/metrics''))
     = Some ''text/plain; version=0.0.4; charset=utf-8'' \<and>
   content_type_of (server_handle True sample_etag bare_register (plain_request GET ''/metrics''))
     \<noteq> Some (contentType bare_register) \<and>
   status_of (server_handle True sample_etag good_register (expecting_request GET ''/metrics''))
     = Some 417"
proof -
  have m: "metrics bare_register = Inr ''process_cpu_seconds_total 0.5''"
    and c: "contentType bare_register = ''text/plain; version=0.0.4''"
    by (simp_all add: bare_register_def)
  have "server_handle True sample_etag bare_register (plain_request GET ''/metrics'') =
     Responded \<lparr>status_code = 200,
                content_type = Some ''text/plain; version=0.0.4; charset=utf-8'',
                body = ''process_cpu_seconds_total 0.5''\<rparr>"
    using metrics_outcome_ok [of "plain_request GET ''/metrics''" bare_register _ sample_etag, OF _ _ m]
    by (simp add: passed_on plain_passed GET_known plain_fields match_self c bare_type)
  then show ?thesis by (simp add: c expecting_any node_reply_def)
qed

text \<open>
  C6, as the code has it: a GET request to \<open>/metrics\<close> that Node passes to the
  application, and whose rendering succeeds, is answered 200 with the rendered text as the
  body and the registry's declared content type as \<open>res.set\<close> completes it: as declared
  when it names a charset (prom-client's own is
  \<open>text/plain; version=0.0.4; charset=utf-8\<close>), with \<open>; charset=utf-8\<close> appended when it
  is a text type that names none. No such request is answered 500, whether the rendering
  succeeds or not. The registry is a parameter.
\<close>

theorem metrics_route:
  assumes "req_method req = GET" and "route_match ''/metrics'' (req_path req)"
    and "node_front require_host req = None"
  shows "(metrics register = Inr text \<longrightarrow>
          server_handle require_host etag_fn register req =
            Responded \<lparr>status_code = 200,
                       content_type = Some (content_type_value (contentType register)),
                       body = text\<rparr>) \<and>
         (charsetRegExp_test (contentType register) \<longrightarrow>
          content_type_value (contentType register) = contentType register) \<and>
         (\<not> charsetRegExp_test (contentType register) \<and> prefix ''text/'' (contentType register) \<longrightarrow>
          content_type_value (contentType register) = contentType register @ ''; charset=utf-8'') \<and>
         status_of (server_handle require_host etag_fn register req) \<noteq> Some 500"
proof (intro conjI impI)
  assume "metrics register = Inr text"
  with assms show "server_handle require_host etag_fn register req =
      Responded \<lparr>status_code = 200,
                 content_type = Some (content_type_value (contentType register)), body = text\<rparr>"
    by (simp add: passed_on metrics_outcome_ok)
next
  assume "charsetRegExp_test (contentType register)"
  then show "content_type_value (contentType register) = contentType register"
    by (simp add: content_type_value_def)
next
  assume "\<not> charsetRegExp_test (contentType register) \<and> prefix ''text/'' (contentType register)"
  then show "content_type_value (contentType register) = contentType register @ ''; charset=utf-8''"
    by (simp add: text_type_completed)
next
  from assms show "status_of (server_handle require_host etag_fn register req) \<noteq> Some 500"
    by (cases "metrics register") (simp_all add: passed_on handle_metrics metrics_handler_cases)
qed

theorem metrics_route_witness:
  "req_method (plain_request GET ''/metrics'') = GET \<and>
   route_match ''/metrics'' (req_path (plain_request GET ''/metrics'')) \<and>
   node_front True (plain_request GET ''/metrics'') = None \<and>
   metrics good_register = Inr ''process_cpu_seconds_total 0.5'' \<and>
   charsetRegExp_test (contentType good_register) \<and>
   server_handle True sample_etag good_register (plain_request GET ''/metrics'') =
     Responded \<lparr>status_code = 200,
                content_type = Some ''text/plain; version=0.0.4; charset=utf-8'',
                body = ''process_cpu_seconds_total 0.5''\<rparr>"
proof -
  have m: "metrics good_register = Inr ''process_cpu_seconds_total 0.5''"
    by (simp add: good_register_def)
  have c: "contentType good_register = ''text/plain; version=0.0.4; charset=utf-8''"
    by (simp add: good_register_def)
  have h: "req_method (plain_request GET ''/metrics'') = GET"
    "route_match ''/metrics'' (req_path (plain_request GET ''/metrics''))"
    "node_front True (plain_request GET ''/metrics'') = None"
    by (simp_all add: plain_fields match_self plain_passed GET_known)
  from metrics_route [OF h, of good_register "''process_cpu_seconds_total 0.5''" sample_etag]
    m good_register_charset
  have "server_handle True sample_etag good_register (plain_request GET ''/metrics'') =
     Responded \<lparr>status_code = 200, content_type = Some (contentType good_register),
                body = ''process_cpu_seconds_total 0.5''\<rparr>"
    by simp
  with h m good_register_charset show ?thesis
    unfolding c by blast
qed

subsection \<open>C7: errors at the boundary\<close>

text \<open>
  C7 says that every error of a handler becomes a 4xx or 5xx response and that none ends
  the process, the rendering error of the \<open>/metrics\<close> handler included. When the
  rendering is rejected, no status code goes out and the process exits.
\<close>

theorem metrics_rejection_unhandled:
  "server_handle True sample_etag failing_register (plain_request GET ''/metrics'') =
     Unhandled_rejection (Error ''collect failed'') \<and>
   status_of (server_handle True sample_etag failing_register (plain_request GET ''/metrics''))
     = None \<and>
   after_request (server_handle True sample_etag failing_register (plain_request GET ''/metrics''))
     = Exited 1"
  by (simp add: passed_on plain_passed GET_known handle_metrics plain_fields match_self
      metrics_handler_cases failing_register_def)

text \<open>
  C7, as the code has it: the one error a handler can raise is the rejection of the
  rendering, on a GET or HEAD request to \<open>/metrics\<close> that Node passes to the application.
  It is not contained: no response is written, the rejection is unhandled, and the process
  exits with code 1. Every other request leaves the process listening and is never
  answered with a 5xx: the application answers 200, 304 or 404, and what Node settles
  itself it answers with a 4xx or by destroying the socket.
\<close>

theorem rejection_only_from_metrics:
  "(if node_front require_host req = None \<and>
       (req_method req = GET \<or> req_method req = HEAD) \<and>
       route_match ''/metrics'' (req_path req) \<and> isl (metrics register)
    then server_handle require_host etag_fn register req =
           Unhandled_rejection (projl (metrics register)) \<and>
         status_of (server_handle require_host etag_fn register req) = None \<and>
         after_request (server_handle require_host etag_fn register req) = Exited 1
    else after_request (server_handle require_host etag_fn register req) = Listening \<and>
         (case status_of (server_handle require_host etag_fn register req) of
            None \<Rightarrow> server_handle require_host etag_fn register req = Socket_destroyed
          | Some s \<Rightarrow>
              if node_front require_host req = None then s = 200 \<or> s = 304 \<or> s = 404
              else 400 \<le> s \<and> s < 500))"
proof (cases "node_front require_host req")
  case None
  note p = passed_on [OF None, of etag_fn register]
  show ?thesis
  proof (cases "(req_method req = GET \<or> req_method req = HEAD) \<and>
      route_match ''/metrics'' (req_path req) \<and> isl (metrics register)")
    case True
    then have "app_handle etag_fn register req = Unhandled_rejection (projl (metrics register))"
      by (simp add: app_rejects)
    with True None p show ?thesis by simp
  next
    case False
    from app_answered [OF False, of etag_fn] have "answered (server_handle require_host etag_fn register req)"
      by (simp add: p)
    with False None show ?thesis
      by (auto simp: answered_def)
  qed
next
  case (Some out)
  note s = settled [OF Some, of etag_fn register]
  from node_front_Some [OF Some] show ?thesis
  proof
    assume "out = Socket_destroyed"
    with Some s show ?thesis by simp
  next
    assume "\<exists>c. out = node_reply c \<and> 400 \<le> c \<and> c < 500 \<and> c \<noteq> 404"
    then obtain c where "out = node_reply c" "400 \<le> c" "c < 500" by blast
    with Some s show ?thesis by (simp add: node_reply_def)
  qed
qed

theorem rejection_only_from_metrics_witness:
  "after_request (server_handle True sample_etag failing_register (plain_request GET ''/metrics''))
     = Exited 1 \<and>
   status_of (server_handle True sample_etag failing_register (plain_request GET ''/health''))
     = Some 200 \<and>
   after_request (server_handle True sample_etag failing_register (plain_request GET ''/health''))
     = Listening \<and>
   status_of (server_handle True sample_etag failing_register (expecting_request GET ''/metrics''))
     = Some 417"
proof -
  have f: "isl (metrics failing_register)" by (simp add: failing_register_def)
  have h: "\<not> route_match ''/metrics'' ''/health''"
    by (simp add: match_metrics to_lower_consts)
  have s: "status_of (server_handle True sample_etag failing_register (plain_request GET ''/health'')) = Some 200"
    by (simp add: plain_health)
  have e: "status_of (server_handle True sample_etag failing_register (expecting_request GET ''/metrics'')) = Some 417"
    by (simp add: expecting_any node_reply_def)
  from rejection_only_from_metrics [of True "plain_request GET ''/metrics''" failing_register sample_etag]
    rejection_only_from_metrics [of True "plain_request GET ''/health''" failing_register sample_etag]
    f h s e
  show ?thesis by (simp add: plain_fields match_self plain_passed GET_known)
qed

subsection \<open>C8: metric names are unique\<close>

text \<open>
  C8, against the registry of the specification: after any run of registrations from the
  empty registry the names are distinct and every name that was registered has exactly one
  entry in the rendered snapshot; and registering a name that a registry holds fails with
  \<open>DuplicateNameError\<close> and leaves that registry as it was.
\<close>

theorem registry_names_unique:
  "distinct (map metric_name (register_each [] ms)) \<and>
   (\<forall>m \<in> set ms. entries_for (metric_name m) (register_each [] ms) = 1) \<and>
   (metric_name m \<in> set (map metric_name reg) \<longrightarrow>
      spec_register m reg = Inl DuplicateNameError \<and> register_each reg [m] = reg)"
proof (intro conjI ballI impI)
  show d: "distinct (map metric_name (register_each [] ms))"
    by (rule register_each_distinct) simp
  show "entries_for (metric_name x) (register_each [] ms) = 1" if "x \<in> set ms" for x
  proof (rule one_entry [OF d])
    from that show "metric_name x \<in> set (map metric_name (register_each [] ms))"
      unfolding register_each_names by simp
  qed
  show "spec_register m reg = Inl DuplicateNameError"
    if "metric_name m \<in> set (map metric_name reg)"
    using that by (simp add: spec_register_def)
  show "register_each reg [m] = reg" if "metric_name m \<in> set (map metric_name reg)"
    using that by (simp add: spec_register_def)
qed

theorem registry_names_unique_witness:
  "sample_metric ''up'' \<in> set [sample_metric ''up'', sample_metric ''cpu'', sample_metric ''up''] \<and>
   entries_for ''up''
     (register_each [] [sample_metric ''up'', sample_metric ''cpu'', sample_metric ''up'']) = 1 \<and>
   metric_name (sample_metric ''up'') \<in> set (map metric_name [sample_metric ''up'']) \<and>
   spec_register (sample_metric ''up'') [sample_metric ''up''] = Inl DuplicateNameError \<and>
   spec_render (register_each [] [sample_metric ''up'', sample_metric ''cpu'', sample_metric ''up''])
     = ''up 0'' @ [CHR 0x0A] @ ''cpu 0'' @ [CHR 0x0A]"
proof -
  have n: "metric_name (sample_metric ''up'') = ''up''" by (simp add: sample_metric_def)
  have r: "spec_render (register_each [] [sample_metric ''up'', sample_metric ''cpu'', sample_metric ''up''])
     = ''up 0'' @ [CHR 0x0A] @ ''cpu 0'' @ [CHR 0x0A]"
    by (simp add: spec_register_def sample_metric_def spec_render_def spec_render_entries_def
        render_line_def render_labels_def)
  from registry_names_unique [of "[sample_metric ''up'', sample_metric ''cpu'', sample_metric ''up'']"
      "sample_metric ''up''" "[sample_metric ''up'']"] r
  show ?thesis by (simp add: n)
qed

subsection \<open>C9: unmatched paths\<close>

text \<open>
  C9 says that every request whose path matches none of the three routes is answered 404.
  A request with a method Node does not know, \<open>FOO /nonexistent\<close>, is answered 400 by
  Node's parser, and \<open>GET /nonexistent\<close> with \<open>Expect: foo\<close> is answered 417; neither
  reaches the router.
\<close>

theorem unknown_method_not_404:
  "\<not> route_match ''/'' (req_path (plain_request ''FOO'' ''/nonexistent'')) \<and>
   \<not> route_match ''/health'' (req_path (plain_request ''FOO'' ''/nonexistent'')) \<and>
   \<not> route_match ''/metrics'' (req_path (plain_request ''FOO'' ''/nonexistent'')) \<and>
   status_of (server_handle True sample_etag good_register (plain_request ''FOO'' ''/nonexistent''))
     = Some 400 \<and>
   status_of (server_handle True sample_etag good_register (expecting_request GET ''/nonexistent''))
     = Some 417"
  by (simp add: plain_fields no_match_nonexistent settled unknown_method_400 expecting_any
      node_reply_def)

text \<open>
  C9, as the code has it: a request that Node passes to the application and whose path
  matches none of the three routes is answered 404, whatever its method.
\<close>

theorem unmatched_404:
  assumes "node_front require_host req = None"
    and "\<not> route_match ''/'' (req_path req)" and "\<not> route_match ''/health'' (req_path req)"
    and "\<not> route_match ''/metrics'' (req_path req)"
  shows "server_handle require_host etag_fn register req = Not_found \<and>
         status_of (server_handle require_host etag_fn register req) = Some 404"
  using assms by (simp add: passed_on handle_unmatched)

theorem unmatched_404_witness:
  "node_front True (plain_request ''POST'' ''/nonexistent'') = None \<and>
   \<not> route_match ''/'' (req_path (plain_request ''POST'' ''/nonexistent'')) \<and>
   \<not> route_match ''/health'' (req_path (plain_request ''POST'' ''/nonexistent'')) \<and>
   \<not> route_match ''/metrics'' (req_path (plain_request ''POST'' ''/nonexistent'')) \<and>
   status_of (server_handle True sample_etag good_register (plain_request ''POST'' ''/nonexistent''))
     = Some 404"
proof -
  have 0: "node_front True (plain_request ''POST'' ''/nonexistent'') = None"
    by (simp add: plain_passed METHODS_def)
  have 1: "\<not> route_match ''/'' (req_path (plain_request ''POST'' ''/nonexistent''))"
    and 2: "\<not> route_match ''/health'' (req_path (plain_request ''POST'' ''/nonexistent''))"
    and 3: "\<not> route_match ''/metrics'' (req_path (plain_request ''POST'' ''/nonexistent''))"
    by (simp_all add: plain_fields no_match_nonexistent)
  from unmatched_404 [OF 0 1 2 3] 0 1 2 3 show ?thesis by simp
qed

subsection \<open>C10: the request does not matter\<close>

text \<open>
  C10 says that two requests to \<open>/\<close>, or two to \<open>/health\<close>, get the same status and
  body whatever their headers. The handlers read nothing of the request, but
  \<open>res.send\<close> reads its validators and Node its Expect header: of three GET requests to
  \<open>/health\<close>, the plain one gets 200 and the body, the one with \<open>If-None-Match: *\<close>
  gets 304 and no body, and the one with \<open>Expect: foo\<close> gets 417.
\<close>

theorem headers_change_response:
  \<open>req_method (plain_request GET ''/health'') = req_method (conditional_request GET ''/health'') \<and>
   req_path (plain_request GET ''/health'') = req_path (conditional_request GET ''/health'') \<and>
   status_of (server_handle True sample_etag good_register (plain_request GET ''/health''))
     = Some 200 \<and>
   body_of (server_handle True sample_etag good_register (plain_request GET ''/health'')) =
     Some ''{"status":"UP"}'' \<and>
   status_of (server_handle True sample_etag good_register (conditional_request GET ''/health''))
     = Some 304 \<and>
   body_of (server_handle True sample_etag good_register (conditional_request GET ''/health''))
     = Some [] \<and>
   req_method (expecting_request GET ''/health'') = GET \<and>
   req_path (expecting_request GET ''/health'') = ''/health'' \<and>
   status_of (server_handle True sample_etag good_register (expecting_request GET ''/health''))
     = Some 417\<close>
  by (simp add: plain_health conditional_health expecting_any node_reply_def plain_fields
      conditional_fields expecting_fields)

text \<open>
  C10, as the code has it: two GET requests to the same of the two routes that Node passes
  to the application, and that agree on If-None-Match, If-Modified-Since and Cache-Control,
  get the same response, whatever their other headers, their query strings, their bodies
  and their HTTP versions, and whatever the registry does.
\<close>

theorem static_routes_same_response:
  assumes "req_method r1 = GET" and "req_method r2 = GET"
    and "p = ''/'' \<or> p = ''/health''"
    and "route_match p (req_path r1)" and "route_match p (req_path r2)"
    and "node_front require_host r1 = None" and "node_front require_host r2 = None"
    and "header r1 ''if-none-match'' = header r2 ''if-none-match''"
    and "header r1 ''if-modified-since'' = header r2 ''if-modified-since''"
    and "header r1 ''cache-control'' = header r2 ''cache-control''"
  shows "server_handle require_host etag_fn reg1 r1 = server_handle require_host etag_fn reg2 r2"
proof -
  have f: "fresh r1 etag = fresh r2 etag" for etag
    using assms(8-10) by (rule fresh_cong)
  from assms(3) show ?thesis
  proof
    assume "p = ''/''"
    with assms show ?thesis
      by (simp add: passed_on home_outcome f)
  next
    assume "p = ''/health''"
    with assms show ?thesis
      by (simp add: passed_on health_outcome f)
  qed
qed

theorem static_routes_same_response_witness:
  "req_version probe_request \<noteq> req_version (plain_request GET ''/health'') \<and>
   req_query probe_request \<noteq> req_query (plain_request GET ''/health'') \<and>
   req_headers probe_request \<noteq> req_headers (plain_request GET ''/health'') \<and>
   req_body probe_request \<noteq> req_body (plain_request GET ''/health'') \<and>
   server_handle True sample_etag good_register probe_request =
     server_handle True sample_etag failing_register (plain_request GET ''/health'')"
proof -
  have h: "header probe_request ''if-none-match'' = header (plain_request GET ''/health'') ''if-none-match''"
    "header probe_request ''if-modified-since'' = header (plain_request GET ''/health'') ''if-modified-since''"
    "header probe_request ''cache-control'' = header (plain_request GET ''/health'') ''cache-control''"
    by (simp_all add: header_def probe_request_def plain_request_def)
  have p: "req_method probe_request = GET" "req_method (plain_request GET ''/health'') = GET"
    "''/health'' = ''/'' \<or> ''/health'' = ''/health''"
    "route_match ''/health'' (req_path probe_request)"
    "route_match ''/health'' (req_path (plain_request GET ''/health''))"
    "node_front True probe_request = None" "node_front True (plain_request GET ''/health'') = None"
    by (simp_all add: probe_request_def plain_fields match_self probe_passed [unfolded probe_request_def]
        plain_passed GET_known)
  have d: "req_version probe_request \<noteq> req_version (plain_request GET ''/health'')"
    "req_query probe_request \<noteq> req_query (plain_request GET ''/health'')"
    "req_headers probe_request \<noteq> req_headers (plain_request GET ''/health'')"
    "req_body probe_request \<noteq> req_body (plain_request GET ''/health'')"
    by (simp_all add: probe_request_def plain_request_def)
  from static_routes_same_response [OF p h, of sample_etag good_register failing_register] d
  show ?thesis by simp
qed

end
